theory Spec2Isabelle
  imports Complex_Main "HOL-Library.Sublist"
begin

section \<open>Strings\<close>

text \<open>
  A JavaScript string is a sequence of UTF-16 code units. What the user says (a
  transcript, a query) and what the backend sends is modelled as a list of code units,
  each an integer from 0 to 65535. The texts that the program itself writes (patterns,
  keywords, command phrases, replies) are ASCII and are kept as Isabelle strings;
  \<open>units\<close> reads such a text as code units.
\<close>

type_synonym utf16 = "int list"

definition units :: "string \<Rightarrow> utf16" where
  "units s = map of_char s"

text \<open>
  \<open>String.prototype.toLowerCase\<close> follows the Unicode case tables, which are not part
  of the repository. The mapping is written out for the code units up to U+00FF (A-Z and
  the letters U+00C0..U+00DE without the multiplication sign U+00D7 move 32 places up,
  every other one stays) and for the Kelvin sign U+212A, whose lower-case form is
  the letter k. For a string with any other code unit the result is taken from the
  parameter \<open>unicode\<close>, which stands for the tables.
\<close>

definition toLowerCase_unit :: "int \<Rightarrow> int" where
  "toLowerCase_unit c =
     (if (65 \<le> c \<and> c \<le> 90) \<or> (192 \<le> c \<and> c \<le> 222 \<and> c \<noteq> 215) then c + 32
      else if c = 0x212A then 0x6B
      else c)"

definition modelled_unit :: "int \<Rightarrow> bool" where
  "modelled_unit c = ((0 \<le> c \<and> c \<le> 0xFF) \<or> c = 0x212A)"

definition toLowerCase :: "(utf16 \<Rightarrow> utf16) \<Rightarrow> utf16 \<Rightarrow> utf16" where
  "toLowerCase unicode s =
     (if list_all modelled_unit s then map toLowerCase_unit s else unicode s)"

text \<open>
  \<open>String.prototype.trim\<close> removes white space and line terminators from both ends:
  TAB, LF, VT, FF, CR, SPACE, the no-break space U+00A0, U+1680, U+2000..U+200A, the
  line and paragraph separators U+2028 and U+2029, U+202F, U+205F, U+3000 and the byte
  order mark U+FEFF.
\<close>

definition isWhiteSpace :: "int \<Rightarrow> bool" where
  "isWhiteSpace c =
     ((9 \<le> c \<and> c \<le> 13) \<or> c = 0x20 \<or> c = 0xA0 \<or> c = 0x1680
      \<or> (0x2000 \<le> c \<and> c \<le> 0x200A) \<or> c = 0x2028 \<or> c = 0x2029 \<or> c = 0x202F
      \<or> c = 0x205F \<or> c = 0x3000 \<or> c = 0xFEFF)"

definition trim :: "utf16 \<Rightarrow> utf16" where
  "trim s = rev (dropWhile isWhiteSpace (rev (dropWhile isWhiteSpace s)))"

text \<open>\<open>String.prototype.includes\<close>: the argument occurs as a contiguous run of the receiver.\<close>

definition includes_str :: "utf16 \<Rightarrow> utf16 \<Rightarrow> bool" where
  "includes_str s part = sublist part s"

section \<open>Regular expressions of the command table\<close>

text \<open>
  Every pattern of the enhanced voice screen has the shape
  \<open>/a.*b|c.*d|word/i\<close>: a disjunction of sequences of literal characters and \<open>.*\<close>.
  A pattern is kept as the list of its alternatives, each a list of atoms. The literal
  characters are the ASCII letters that the table is written with.

  The flag \<open>i\<close> (without the flag \<open>u\<close>) compares two code units after
  \<open>Canonicalize\<close>: a code unit is replaced by its upper-case form when that form is a
  single code unit, except that a code unit from U+0080 on is never replaced by one
  below U+0080. So a code unit from U+0080 on is never equal to an ASCII literal, the
  Kelvin sign U+212A included, and a code unit below U+0080 is equal to an ASCII literal
  when both agree after a-z has been moved to A-Z. The dot matches every code unit but
  the line terminators LF, CR, U+2028 and U+2029.
\<close>

datatype atom = Lit char | DotStar

type_synonym regex = "atom list list"

definition upper_ascii :: "int \<Rightarrow> int" where
  "upper_ascii c = (if 97 \<le> c \<and> c \<le> 122 then c - 32 else c)"

definition matches_literal :: "int \<Rightarrow> char \<Rightarrow> bool" where
  "matches_literal c d = (c < 128 \<and> upper_ascii c = upper_ascii (of_char d))"

definition isLineTerminator :: "int \<Rightarrow> bool" where
  "isLineTerminator c = (c = 10 \<or> c = 13 \<or> c = 0x2028 \<or> c = 0x2029)"

text \<open>Does the sequence of atoms match a prefix of the text?\<close>

fun match_here :: "atom list \<Rightarrow> utf16 \<Rightarrow> bool" where
  "match_here [] s = True"
| "match_here (Lit d # as) [] = False"
| "match_here (Lit d # as) (c # cs) = (matches_literal c d \<and> match_here as cs)"
| "match_here (DotStar # as) [] = match_here as []"
| "match_here (DotStar # as) (c # cs) =
     (match_here as (c # cs) \<or> (\<not> isLineTerminator c \<and> match_here (DotStar # as) cs))"

text \<open>An unanchored pattern may match at any start position.\<close>

fun match_anywhere :: "atom list \<Rightarrow> utf16 \<Rightarrow> bool" where
  "match_anywhere as [] = match_here as []"
| "match_anywhere as (c # cs) = (match_here as (c # cs) \<or> match_anywhere as cs)"

text \<open>\<open>RegExp.prototype.test\<close> for a pattern without the flags \<open>g\<close> and \<open>y\<close>.\<close>

definition test :: "regex \<Rightarrow> utf16 \<Rightarrow> bool" where
  "test r s = list_ex (\<lambda>as. match_anywhere as s) r"

definition word :: "string \<Rightarrow> atom list" where
  "word a = map Lit a"

definition gap :: "string \<Rightarrow> string \<Rightarrow> atom list" where
  "gap a b = map Lit a @ DotStar # map Lit b"

section \<open>Numbers\<close>

text \<open>
  \<open>Math.random()\<close> returns a binary64 number that is at least 0 and less than 1. A
  non-negative finite binary64 number is \<open>mant * 2 ^ expo\<close> for an integer
  \<open>mant\<close> below \<open>2 ^ 53\<close> and an exponent from -1074 to 971; it is kept as that pair.
\<close>

record double =
  mant :: int
  expo :: int

definition is_double :: "double \<Rightarrow> bool" where
  "is_double x = (0 \<le> mant x \<and> mant x < 2 ^ 53 \<and> - 1074 \<le> expo x \<and> expo x \<le> 971)"

definition value64 :: "double \<Rightarrow> real" where
  "value64 x = of_int (mant x) * 2 powi expo x"

text \<open>
  The product of a binary64 number and an array length is the exact product rounded to
  the nearest binary64 number, ties to even. The exact product is
  \<open>(mant * n) * 2 ^ expo\<close>; when \<open>mant * n\<close> has more than 53 bits, the
  \<open>s\<close> lowest bits are rounded away and the exponent grows by \<open>s\<close>. (For a factor
  below 1, as here, the product is below \<open>n\<close> and does not overflow.)
\<close>

function shift_for :: "int \<Rightarrow> nat" where
  "shift_for M = (if M < 2 ^ 53 then 0 else Suc (shift_for (M div 2)))"
  by pat_completeness auto
termination
  by (relation "measure nat") auto

declare shift_for.simps [simp del]

definition round_half_even :: "int \<Rightarrow> nat \<Rightarrow> int" where
  "round_half_even M s =
     (let q = M div 2 ^ s; r = M mod 2 ^ s in
      if 2 * r < 2 ^ s then q
      else if 2 ^ s < 2 * r then q + 1
      else if even q then q else q + 1)"

definition times_length :: "double \<Rightarrow> nat \<Rightarrow> double" where
  "times_length x n =
     (let M = mant x * int n; s = shift_for M in
      \<lparr>mant = round_half_even M s, expo = expo x + int s\<rparr>)"

text \<open>\<open>Math.floor\<close> of a non-negative binary64 number, an integer.\<close>

definition floor64 :: "double \<Rightarrow> int" where
  "floor64 x =
     (if 0 \<le> expo x then mant x * 2 ^ nat (expo x) else mant x div 2 ^ nat (- expo x))"

section \<open>The enhanced voice screen\<close>

subsection \<open>Data\<close>

datatype role = User | Assistant

text \<open>
  Of a voice message the role and the text are kept; the identifier and the time stamp
  come from the clock, and no function below reads them. Only the texts of assistant
  messages are ever read, and those are written by the program.
\<close>

record VoiceMessage =
  msg_role :: role
  msg_text :: string

datatype severity = Low | Medium | High

datatype alert_type = Medication | Risk_change | Emergency | Reminder

record HealthAlert =
  alert_text :: string
  alert_severity :: severity
  alert_type :: alert_type

datatype trend = Improving | Stable | Worsening

text \<open>The scores are the results of \<open>Math.round\<close>, hence integers.\<close>

record RiskData =
  overall_score :: int
  heart_attack :: int
  stroke :: int
  heart_failure :: int
  arrhythmia :: int
  last_updated :: string
  trend :: trend

record VoiceCommandRule =
  pattern :: regex
  action :: string
  description :: string

text \<open>The component state that the handlers read.\<close>

record ui_state =
  riskData :: "RiskData option"
  voiceMessages :: "VoiceMessage list"
  isListening :: bool
  recognitionRef :: bool

datatype speak_priority = PLow | PHigh

text \<open>
  What a handler does to its surroundings, in order: a message appended to the
  conversation, an alert put in front of the alerts, an utterance handed to speech
  synthesis, a navigation, and stopping the recogniser.
\<close>

datatype effect =
    SetVoiceMessages VoiceMessage
  | SetHealthAlerts HealthAlert
  | Speak string speak_priority
  | RouterPush string
  | RecognitionStop

subsection \<open>Numbers in template strings\<close>

fun string_of_nat :: "nat \<Rightarrow> string" where
  "string_of_nat n =
     (if n < 10 then [''0123456789'' ! n]
      else string_of_nat (n div 10) @ [''0123456789'' ! (n mod 10)])"

declare string_of_nat.simps [simp del]

definition string_of_int :: "int \<Rightarrow> string" where
  "string_of_int i = (if i < 0 then CHR ''-'' # string_of_nat (nat (- i)) else string_of_nat (nat i))"

definition string_of_trend :: "trend \<Rightarrow> string" where
  "string_of_trend t = (case t of Improving \<Rightarrow> ''improving'' | Stable \<Rightarrow> ''stable'' | Worsening \<Rightarrow> ''worsening'')"

subsection \<open>The command table\<close>

definition voiceCommands :: "VoiceCommandRule list" where
  "voiceCommands =
   [\<lparr>pattern = [gap ''show'' ''risk'', gap ''what'' ''risk'', gap ''current'' ''risk''],
     action = ''show_risk'', description = ''Show current risk levels''\<rparr>,
    \<lparr>pattern = [gap ''start'' ''assessment'', gap ''new'' ''assessment'', gap ''take'' ''test''],
     action = ''start_assessment'', description = ''Start new assessment''\<rparr>,
    \<lparr>pattern = [gap ''explain'' ''result'', gap ''what'' ''mean'', gap ''help'' ''understand''],
     action = ''explain_results'', description = ''Explain risk results''\<rparr>,
    \<lparr>pattern = [gap ''medication'' ''remind'', gap ''take'' ''medicine'', word ''pills''],
     action = ''medication_reminder'', description = ''Set medication reminder''\<rparr>,
    \<lparr>pattern = [word ''emergency'', gap ''help'' ''urgent'', gap ''call'' ''doctor''],
     action = ''emergency_help'', description = ''Emergency assistance''\<rparr>,
    \<lparr>pattern = [gap ''next'' ''question'', word ''continue'', word ''proceed''],
     action = ''next_question'', description = ''Continue to next question''\<rparr>,
    \<lparr>pattern = [gap ''repeat'' ''result'', gap ''say'' ''again'', word ''repeat''],
     action = ''repeat_last'', description = ''Repeat last result''\<rparr>,
    \<lparr>pattern = [gap ''lifestyle'' ''tip'', gap ''health'' ''advice'', gap ''improve'' ''health''],
     action = ''lifestyle_tips'', description = ''Get health tips''\<rparr>,
    \<lparr>pattern = [gap ''stop'' ''listening'', word ''pause'', word ''quiet''],
     action = ''stop_listening'', description = ''Stop voice assistant''\<rparr>]"

subsection \<open>Speaking, messages and alerts\<close>

definition speak :: "string \<Rightarrow> speak_priority \<Rightarrow> effect list" where
  "speak text priority = [Speak text priority]"

definition addVoiceMessage :: "role \<Rightarrow> string \<Rightarrow> effect list" where
  "addVoiceMessage r text =
     SetVoiceMessages \<lparr>msg_role = r, msg_text = text\<rparr>
       # (if r = Assistant then speak text PLow else [])"

definition addHealthAlert :: "string \<Rightarrow> severity \<Rightarrow> alert_type \<Rightarrow> effect list" where
  "addHealthAlert text sev ty =
     SetHealthAlerts \<lparr>alert_text = text, alert_severity = sev, alert_type = ty\<rparr>
       # (if sev = High then speak (''Important alert: '' @ text) PHigh else [])"

definition stopListening :: "ui_state \<Rightarrow> effect list" where
  "stopListening st = (if recognitionRef st \<and> isListening st then [RecognitionStop] else [])"

subsection \<open>Handlers\<close>

definition showCurrentRisk :: "ui_state \<Rightarrow> effect list" where
  "showCurrentRisk st =
     (case riskData st of
        Some rd \<Rightarrow>
          addVoiceMessage Assistant
           (''Your overall cardiovascular risk score is '' @ string_of_int (overall_score rd)
            @ ''%. Breaking this down: Heart attack risk is '' @ string_of_int (heart_attack rd)
            @ ''%, stroke risk is '' @ string_of_int (stroke rd)
            @ ''%, heart failure risk is '' @ string_of_int (heart_failure rd)
            @ ''%, and arrhythmia risk is '' @ string_of_int (arrhythmia rd)
            @ ''%. Your risk trend is currently '' @ string_of_trend (trend rd)
            @ ''. Would you like me to explain what these numbers mean?'')
      | None \<Rightarrow>
          addVoiceMessage Assistant
           ''I don't have your current risk data available. Would you like to start a new assessment to get updated risk calculations?'')"

definition explainLatestResults :: "effect list" where
  "explainLatestResults =
     addVoiceMessage Assistant
      ''Your cardiovascular risk assessment uses advanced machine learning to analyze over 20 health factors. The system looks at things like your age, blood pressure, cholesterol levels, family history, lifestyle habits, and more. Each factor is weighted based on medical research to give you personalized risk predictions. The percentages tell you your statistical likelihood of developing each condition. Would you like me to focus on any specific risk factor?''"

text \<open>\<open>voiceMessages.filter(m => m.role === 'assistant').pop()\<close> is the last assistant message, if any.\<close>

definition repeatLastResult :: "ui_state \<Rightarrow> effect list" where
  "repeatLastResult st =
     (case rev (filter (\<lambda>m. msg_role m = Assistant) (voiceMessages st)) of
        m # _ \<Rightarrow> addVoiceMessage Assistant (''I'll repeat that: '' @ msg_text m)
      | [] \<Rightarrow> addVoiceMessage Assistant
                ''I don't have a previous result to repeat. Would you like me to show your current risk levels?'')"

definition tips :: "string list" where
  "tips =
   [''Regular exercise for at least 30 minutes, 5 days a week can significantly reduce your cardiovascular risk.'',
    ''A Mediterranean-style diet rich in fruits, vegetables, whole grains, and healthy fats is excellent for heart health.'',
    ''Managing stress through meditation, yoga, or other relaxation techniques can lower your blood pressure.'',
    ''Getting 7-9 hours of quality sleep each night is crucial for heart health.'',
    ''If you smoke, quitting is the single most important thing you can do for your cardiovascular health.'']"

text \<open>
  \<open>xs[Math.floor(rnd * xs.length)]\<close>, with \<open>rnd\<close> the value that \<open>Math.random()\<close>
  returned. An index outside the array reads \<open>undefined\<close>, which a template string
  prints as that word.
\<close>

definition pick :: "string list \<Rightarrow> double \<Rightarrow> string" where
  "pick xs rnd =
     (let i = floor64 (times_length rnd (length xs)) in
      if 0 \<le> i \<and> nat i < length xs then xs ! nat i else ''undefined'')"

definition randomTip :: "double \<Rightarrow> string" where
  "randomTip rnd = pick tips rnd"

definition provideLifestyleTips :: "double \<Rightarrow> effect list" where
  "provideLifestyleTips rnd =
     addVoiceMessage Assistant
      (''Here's a personalized health tip: '' @ randomTip rnd
       @ '' Would you like more specific advice for your situation?'')"

text \<open>\<open>riskData?.field || fallback\<close>: the fallback also stands in for a score of 0.\<close>

definition score_or :: "ui_state \<Rightarrow> (RiskData \<Rightarrow> int) \<Rightarrow> string \<Rightarrow> string" where
  "score_or st field fallback =
     (case riskData st of
        None \<Rightarrow> fallback
      | Some rd \<Rightarrow> if field rd = 0 then fallback else string_of_int (field rd))"

definition processNaturalLanguageQuery ::
  "(utf16 \<Rightarrow> utf16) \<Rightarrow> ui_state \<Rightarrow> double \<Rightarrow> utf16 \<Rightarrow> effect list" where
  "processNaturalLanguageQuery unicode st rnd query =
     (let lowerQuery = toLowerCase unicode query in
      if includes_str lowerQuery (units ''heart attack'') then
        addVoiceMessage Assistant
         (''Based on your latest assessment, your heart attack risk is ''
          @ score_or st heart_attack ''moderate''
          @ '' level. This is calculated using multiple factors including your age, lifestyle, and medical history. Would you like me to explain which factors are contributing most to this risk?'')
      else if includes_str lowerQuery (units ''stroke'') then
        addVoiceMessage Assistant
         (''Your stroke risk is currently '' @ score_or st stroke ''low''
          @ '' level. Key factors that influence stroke risk include blood pressure, age, and lifestyle habits. Keep up the good work managing your cardiovascular health!'')
      else if includes_str lowerQuery (units ''improve'') \<or> includes_str lowerQuery (units ''better'') then
        provideLifestyleTips rnd
      else
        addVoiceMessage Assistant
         ''I'm here to help with your heart health questions. You can ask me about your risk levels, request health tips, start a new assessment, or ask for explanations of your results. What would you like to know?'')"

text \<open>The \<open>switch\<close> over the action string, with its \<open>default\<close> branch.\<close>

definition executeVoiceAction ::
  "(utf16 \<Rightarrow> utf16) \<Rightarrow> ui_state \<Rightarrow> double \<Rightarrow> string \<Rightarrow> utf16 \<Rightarrow> effect list" where
  "executeVoiceAction unicode st rnd act transcript =
     (if act = ''show_risk'' then showCurrentRisk st
      else if act = ''start_assessment'' then
        addVoiceMessage Assistant ''Starting a new heart health assessment for you.''
          @ [RouterPush ''/assessment'']
      else if act = ''explain_results'' then explainLatestResults
      else if act = ''medication_reminder'' then
        addHealthAlert ''Reminder: Take your prescribed heart medication'' Medium Medication
          @ addVoiceMessage Assistant
             ''I've added a medication reminder for you. Don't forget to take your prescribed heart medication.''
      else if act = ''emergency_help'' then
        addVoiceMessage Assistant
          ''If you're experiencing a medical emergency, please call 911 immediately. For non-urgent medical questions, contact your healthcare provider.''
          @ addHealthAlert ''Emergency resources available if needed'' High Emergency
      else if act = ''next_question'' then
        addVoiceMessage Assistant
          ''Let's continue. What else would you like to know about your heart health?''
      else if act = ''repeat_last'' then repeatLastResult st
      else if act = ''lifestyle_tips'' then provideLifestyleTips rnd
      else if act = ''stop_listening'' then
        stopListening st
          @ addVoiceMessage Assistant ''Voice assistant paused. Tap the microphone to resume.''
      else processNaturalLanguageQuery unicode st rnd transcript)"

definition matchedCommand :: "utf16 \<Rightarrow> VoiceCommandRule option" where
  "matchedCommand transcript = find (\<lambda>cmd. test (pattern cmd) transcript) voiceCommands"

text \<open>
  None of the operations in the \<open>try\<close> block raises, so the \<open>catch\<close> branch with its
  apology message is never taken and is left out.
\<close>

definition processVoiceCommand ::
  "(utf16 \<Rightarrow> utf16) \<Rightarrow> ui_state \<Rightarrow> double \<Rightarrow> utf16 \<Rightarrow> effect list" where
  "processVoiceCommand unicode st rnd transcript =
     (case matchedCommand transcript of
        Some cmd \<Rightarrow> executeVoiceAction unicode st rnd (action cmd) transcript
      | None \<Rightarrow> processNaturalLanguageQuery unicode st rnd transcript)"

section \<open>The voice assistant screen\<close>

subsection \<open>Data\<close>

text \<open>The closures of the command table, named by what they call.\<close>

datatype va_action =
    Navigate string
  | GetLatestRisk string
  | ExplainLatestResults
  | GetPersonalizedTips

record VoiceCommand =
  command :: string
  va_action :: va_action
  va_description :: string

record AIResponse =
  message :: string
  ai_action :: "string option"

datatype speaker = SUser | SAi

text \<open>
  What the screen does, in order: an action of the command table run, a turn added to the
  conversation, an utterance handed to speech synthesis, the response stored, a follow-up
  action scheduled, an error logged. The texts are code units, since a reply may quote
  what the backend sent.
\<close>

datatype va_effect =
    RunAction va_action
  | AddToConversation speaker utf16
  | VaSpeak utf16
  | SetAiResponse AIResponse
  | SetTimeout string nat
  | ConsoleError

text \<open>One risk entry of a stored prediction; \<open>risk_level\<close> may be missing.\<close>

record Risk =
  risk_level :: "utf16 option"
  probability :: real

text \<open>
  A stored prediction as the backend returns it: \<open>cardiovascular_risks\<close> may be
  missing, and otherwise maps a risk type to its entry.
\<close>

record Prediction =
  cardiovascular_risks :: "(string \<times> Risk) list option"

text \<open>The request either fails (network or JSON error) or yields the list of predictions.\<close>

datatype fetch_outcome = Rejected | Resolved "Prediction list"

subsection \<open>The command table\<close>

definition va_voiceCommands :: "VoiceCommand list" where
  "va_voiceCommands =
   [\<lparr>command = ''start assessment'', va_action = Navigate ''/assessment'',
     va_description = ''Begin a new heart health assessment''\<rparr>,
    \<lparr>command = ''show risk monitor'', va_action = Navigate ''/risk-monitor'',
     va_description = ''View real-time risk monitoring''\<rparr>,
    \<lparr>command = ''view history'', va_action = Navigate ''/history'',
     va_description = ''Check your assessment history''\<rparr>,
    \<lparr>command = ''go home'', va_action = Navigate ''/'',
     va_description = ''Return to home dashboard''\<rparr>,
    \<lparr>command = ''what is my heart attack risk'', va_action = GetLatestRisk ''heart_attack'',
     va_description = ''Get your current heart attack risk level''\<rparr>,
    \<lparr>command = ''explain my results'', va_action = ExplainLatestResults,
     va_description = ''Get AI explanation of your latest assessment''\<rparr>,
    \<lparr>command = ''give me health tips'', va_action = GetPersonalizedTips,
     va_description = ''Receive personalized health recommendations''\<rparr>]"

subsection \<open>The conversational responses\<close>

definition getAIHealthCoachResponse :: "(utf16 \<Rightarrow> utf16) \<Rightarrow> utf16 \<Rightarrow> AIResponse" where
  "getAIHealthCoachResponse unicode query =
     (let lowerQuery = toLowerCase unicode query in
      if includes_str lowerQuery (units ''heart attack'') \<or> includes_str lowerQuery (units ''heart risk'') then
        \<lparr>message = ''Based on your latest assessment, your heart attack risk is currently at a medium level. This is primarily influenced by factors like cholesterol levels and lifestyle habits. Would you like specific recommendations to reduce this risk?'',
         ai_action = Some ''show_heart_attack_details''\<rparr>
      else if includes_str lowerQuery (units ''stroke'') \<or> includes_str lowerQuery (units ''brain'') then
        \<lparr>message = ''Your stroke risk appears to be in the low category, which is great news! Your blood pressure management and overall cardiovascular health are contributing positively. Keep up the good work with your current lifestyle.'',
         ai_action = Some ''show_stroke_details''\<rparr>
      else if includes_str lowerQuery (units ''tips'') \<or> includes_str lowerQuery (units ''advice'')
              \<or> includes_str lowerQuery (units ''help me'') then
        \<lparr>message = ''Here are your top 3 personalized recommendations: First, consider increasing your weekly exercise to at least 150 minutes. Second, focus on reducing sodium intake to help with blood pressure. Third, ensure you're getting 7-8 hours of quality sleep nightly.'',
         ai_action = Some ''show_personalized_tips''\<rparr>
      else if includes_str lowerQuery (units ''explain'') \<or> includes_str lowerQuery (units ''what does'')
              \<or> includes_str lowerQuery (units ''mean'') then
        \<lparr>message = ''Your cardiovascular risk assessment uses machine learning to analyze 22 different health factors. The system looks at things like your age, blood pressure, cholesterol, lifestyle habits, and family history to calculate your risk for different heart conditions.'',
         ai_action = Some ''show_explanation''\<rparr>
      else if includes_str lowerQuery (units ''improve'') \<or> includes_str lowerQuery (units ''better'')
              \<or> includes_str lowerQuery (units ''reduce risk'') then
        \<lparr>message = ''Great question! Based on your profile, the most impactful changes would be: quitting smoking if applicable, which could reduce your risk by up to 15%, increasing physical activity could lower it by 8%, and improving your diet could provide a 6% reduction.'',
         ai_action = Some ''show_improvement_plan''\<rparr>
      else if includes_str lowerQuery (units ''emergency'') \<or> includes_str lowerQuery (units ''urgent'')
              \<or> includes_str lowerQuery (units ''call doctor'') then
        \<lparr>message = ''If you're experiencing chest pain, shortness of breath, or other concerning symptoms, please seek immediate medical attention or call emergency services. For non-urgent questions, I recommend scheduling an appointment with your healthcare provider.'',
         ai_action = Some ''show_emergency_info''\<rparr>
      else if includes_str lowerQuery (units ''help'') \<or> includes_str lowerQuery (units ''commands'') then
        \<lparr>message = ''I can help you with: checking your heart risks, explaining assessment results, providing health tips, starting new assessments, or navigating the app. Just speak naturally - for example, say 'What's my heart attack risk?' or 'Give me health advice'.'',
         ai_action = Some ''show_help''\<rparr>
      else
        \<lparr>message = ''I understand you're asking about your heart health. Could you be more specific? You can ask about your risk levels, request health tips, or say 'help' to see what I can do for you.'',
         ai_action = None\<rparr>)"

text \<open>
  \<open>getAIHealthCoachResponse\<close> does not raise, so the \<open>catch\<close> branch of
  \<open>handleAIQuery\<close> is never taken and is left out.
\<close>

definition handleAIQuery :: "(utf16 \<Rightarrow> utf16) \<Rightarrow> utf16 \<Rightarrow> va_effect list" where
  "handleAIQuery unicode query =
     (let response = getAIHealthCoachResponse unicode query in
      [AddToConversation SAi (units (message response)), VaSpeak (units (message response)),
       SetAiResponse response]
        @ (case ai_action response of Some a \<Rightarrow> [SetTimeout a 2000] | None \<Rightarrow> []))"

subsection \<open>The command matcher\<close>

definition va_matchedCommand :: "utf16 \<Rightarrow> VoiceCommand option" where
  "va_matchedCommand cmdtext =
     find (\<lambda>cmd. includes_str cmdtext (units (command cmd))
                 \<or> includes_str (units (command cmd)) cmdtext)
       va_voiceCommands"

text \<open>
  The matcher compares code units exactly. Its callers are the result handler of the
  recogniser, which passes \<open>transcript.toLowerCase().trim()\<close>, and the command
  buttons, which pass a command phrase.
\<close>

definition va_processVoiceCommand :: "(utf16 \<Rightarrow> utf16) \<Rightarrow> utf16 \<Rightarrow> va_effect list" where
  "va_processVoiceCommand unicode cmdtext =
     (case va_matchedCommand cmdtext of
        Some m \<Rightarrow>
          (let response = units (''Executing: '' @ va_description m) in
           [RunAction (va_action m), AddToConversation SAi response, VaSpeak response])
      | None \<Rightarrow> handleAIQuery unicode cmdtext)"

subsection \<open>The actions\<close>

text \<open>\<open>s.replace(a, b)\<close> with a string pattern replaces the first occurrence only.\<close>

fun replace_first :: "char \<Rightarrow> char \<Rightarrow> string \<Rightarrow> string" where
  "replace_first a b [] = []"
| "replace_first a b (c # cs) = (if c = a then b # cs else c # replace_first a b cs)"

text \<open>
  \<open>getLatestRisk\<close> after its request has settled. The rendering of the percentage,
  \<open>(p * 100).toFixed(1)\<close>, is floating-point formatting and is taken as the parameter
  \<open>toFixed1\<close>. A missing \<open>risk_level\<close> makes \<open>toLowerCase\<close> raise inside the
  \<open>try\<close> block, which only logs.
\<close>

definition getLatestRisk ::
  "(utf16 \<Rightarrow> utf16) \<Rightarrow> (real \<Rightarrow> string) \<Rightarrow> fetch_outcome \<Rightarrow> string \<Rightarrow> va_effect list" where
  "getLatestRisk unicode toFixed1 outcome riskType =
     (case outcome of
        Rejected \<Rightarrow> [ConsoleError]
      | Resolved data \<Rightarrow>
          (case data of
             [] \<Rightarrow> []
           | latest # _ \<Rightarrow>
               (case cardiovascular_risks latest of
                  None \<Rightarrow> []
                | Some risks \<Rightarrow>
                    (case map_of risks riskType of
                       None \<Rightarrow> []
                     | Some risk \<Rightarrow>
                         (case risk_level risk of
                            None \<Rightarrow> [ConsoleError]
                          | Some level \<Rightarrow>
                              (let msg =
                                 units (''Your '' @ replace_first CHR ''_'' CHR '' '' riskType
                                        @ '' risk is currently '')
                                 @ toLowerCase unicode level
                                 @ units ('' at '' @ toFixed1 (probability risk * 100) @ ''%.'')
                               in [AddToConversation SAi msg, VaSpeak msg]))))))"

definition va_explainLatestResults :: "va_effect list" where
  "va_explainLatestResults =
     (let msg = ''Your latest assessment shows a comprehensive view of your cardiovascular health. The AI analyzed your lifestyle factors, medical history, and vital signs to calculate risks for heart attack, stroke, heart failure, and arrhythmia. Would you like me to explain any specific risk category?''
      in [AddToConversation SAi (units msg), VaSpeak (units msg)])"

definition va_tips :: "string list" where
  "va_tips =
   [''Aim for 30 minutes of moderate exercise 5 days a week'',
    ''Limit sodium to less than 2,300mg daily'',
    ''Include omega-3 rich fish twice weekly'',
    ''Practice stress-reduction techniques daily'',
    ''Monitor your blood pressure regularly'']"

definition va_randomTip :: "double \<Rightarrow> string" where
  "va_randomTip rnd = pick va_tips rnd"

definition getPersonalizedTips :: "double \<Rightarrow> va_effect list" where
  "getPersonalizedTips rnd =
     (let msg = ''Here's a personalized tip: '' @ va_randomTip rnd
                @ ''. Would you like more specific advice for your risk profile?''
      in [AddToConversation SAi (units msg), VaSpeak (units msg)])"

section \<open>The entity extractor of the backend service\<close>

text \<open>
  Modelled from the spec: the condition vocabulary of the entity extractor. The
  extractor belongs to the backend voice service (behind \<open>/api/voice/process-command\<close>),
  which is not among the sources. The spec names the conditions heart_attack, stroke,
  heart_failure and arrhythmia; each is looked for as a phrase, with a space for the
  underscore, as in the spec's example "What is my heart attack risk?".
\<close>

definition condition_keywords :: "(string \<times> string) list" where
  "condition_keywords =
   [(''heart attack'', ''heart_attack''), (''stroke'', ''stroke''),
    (''heart failure'', ''heart_failure''), (''arrhythmia'', ''arrhythmia'')]"

text \<open>
  Modelled from the spec: the severity words of the entity extractor, mild, moderate and
  severe, mapped to low, medium and high.
\<close>

definition severity_words :: "(string \<times> string) list" where
  "severity_words = [(''mild'', ''low''), (''moderate'', ''medium''), (''severe'', ''high'')]"

text \<open>
  Modelled from the spec: the scan of the text for a vocabulary, which returns at most one
  value, that of the first keyword of the vocabulary that occurs in the text.
\<close>

definition first_keyword :: "(string \<times> string) list \<Rightarrow> utf16 \<Rightarrow> string option" where
  "first_keyword table text =
     map_option snd (find (\<lambda>kv. includes_str text (units (fst kv))) table)"

text \<open>
  Modelled from the spec: the entity extractor (\<open>extract\<close> in the spec) of the backend
  voice service, which is not among the sources. It scans the lower-cased text for the
  condition keywords and the severity words and returns at most one condition and one
  severity; a key without a value is omitted.
\<close>

definition extract_entities :: "(utf16 \<Rightarrow> utf16) \<Rightarrow> utf16 \<Rightarrow> (string \<times> string) list" where
  "extract_entities unicode text =
     (let t = toLowerCase unicode text in
      (case first_keyword condition_keywords t of Some v \<Rightarrow> [(''condition'', v)] | None \<Rightarrow> [])
      @ (case first_keyword severity_words t of Some v \<Rightarrow> [(''severity'', v)] | None \<Rightarrow> []))"

section \<open>Observations on the effects\<close>

text \<open>The texts of the assistant messages among the effects of a handler, in order.\<close>

fun assistant_text :: "effect \<Rightarrow> string list" where
  "assistant_text (SetVoiceMessages m) = (if msg_role m = Assistant then [msg_text m] else [])"
| "assistant_text (SetHealthAlerts a) = []"
| "assistant_text (Speak t p) = []"
| "assistant_text (RouterPush p) = []"
| "assistant_text RecognitionStop = []"

definition assistant_messages :: "effect list \<Rightarrow> string list" where
  "assistant_messages es = concat (map assistant_text es)"

text \<open>
  An effect with the wording of the reply blanked: the text of a message and of the
  utterance that reads it out (spoken at low priority). Alerts, the alert utterance,
  navigation and stopping the recogniser are kept as they are.
\<close>

fun erase_text :: "effect \<Rightarrow> effect" where
  "erase_text (SetVoiceMessages m) = SetVoiceMessages (m\<lparr>msg_text := []\<rparr>)"
| "erase_text (Speak t p) = (if p = PLow then Speak [] p else Speak t p)"
| "erase_text (SetHealthAlerts a) = SetHealthAlerts a"
| "erase_text (RouterPush p) = RouterPush p"
| "erase_text RecognitionStop = RecognitionStop"

text \<open>
  The transcripts that are answered by \<open>provideLifestyleTips\<close>: the rule
  \<open>lifestyle_tips\<close> is the first to match, or no rule matches and the keyword chain of
  \<open>processNaturalLanguageQuery\<close> reaches its third branch.
\<close>

definition samples_tip :: "(utf16 \<Rightarrow> utf16) \<Rightarrow> utf16 \<Rightarrow> bool" where
  "samples_tip unicode t =
     (case matchedCommand t of
        Some cmd \<Rightarrow> action cmd = ''lifestyle_tips''
      | None \<Rightarrow>
          (let q = toLowerCase unicode t in
           \<not> includes_str q (units ''heart attack'') \<and> \<not> includes_str q (units ''stroke'')
           \<and> (includes_str q (units ''improve'') \<or> includes_str q (units ''better''))))"

section \<open>Auxiliary predicates on patterns and keywords\<close>

text \<open>
  A stand-in for the Unicode tables in the examples. Every string of the examples
  consists of code units for which the case mapping is written out above, so the tables
  are not consulted there.
\<close>

definition no_tables :: "utf16 \<Rightarrow> utf16" where
  "no_tables s = s"

text \<open>A transcript all of whose code units are at most U+00FF.\<close>

definition latin1 :: "utf16 \<Rightarrow> bool" where
  "latin1 s = list_all (\<lambda>c. 0 \<le> c \<and> c \<le> 0xFF) s"

text \<open>An atom that is a literal lower-case letter a-z.\<close>

fun is_letter_atom :: "atom \<Rightarrow> bool" where
  "is_letter_atom (Lit d) = (97 \<le> (of_char d :: int) \<and> (of_char d :: int) \<le> 122)"
| "is_letter_atom DotStar = False"



text \<open>No string of the list occurs inside a later one.\<close>

fun none_inside_later :: "'a list list \<Rightarrow> bool" where
  "none_inside_later [] = True"
| "none_inside_later (x # xs) = (list_all (\<lambda>y. \<not> sublist x y) xs \<and> none_inside_later xs)"

section \<open>The first matching rule wins\<close>

text \<open>
  C1. The classifier walks the rule table in order and the first rule whose pattern
  matches the transcript wins: whenever some rule matches, the command found is the
  matching rule of least index, so of two or more matching rules the earliest in the
  table decides, and its action is the one dispatched.
\<close>

theorem first_match_wins:
  assumes "i < length voiceCommands" and "test (pattern (voiceCommands ! i)) t"
  shows "\<exists>k\<le>i. matchedCommand t = Some (voiceCommands ! k)
           \<and> test (pattern (voiceCommands ! k)) t
           \<and> (\<forall>j<k. \<not> test (pattern (voiceCommands ! j)) t)
           \<and> processVoiceCommand ul st rnd t
               = executeVoiceAction ul st rnd (action (voiceCommands ! k)) t"
proof -
  let ?P = "\<lambda>cmd. test (pattern cmd) t"
  from assms have "\<exists>x\<in>set voiceCommands. ?P x"
    using nth_mem by blast
  then obtain c where c: "find ?P voiceCommands = Some c"
    by (cases "find ?P voiceCommands") (auto simp: find_None_iff)
  then obtain k where k: "k < length voiceCommands" "?P (voiceCommands ! k)"
      "c = voiceCommands ! k" "\<forall>j<k. \<not> ?P (voiceCommands ! j)"
    unfolding find_Some_iff by blast
  have "k \<le> i"
  proof (rule ccontr)
    assume "\<not> k \<le> i"
    then have "i < k" by simp
    with k(4) assms(2) show False by blast
  qed
  moreover have m: "matchedCommand t = Some (voiceCommands ! k)"
    using c k(3) by (simp add: matchedCommand_def)
  moreover from m have "processVoiceCommand ul st rnd t
      = executeVoiceAction ul st rnd (action (voiceCommands ! k)) t"
    by (simp add: processVoiceCommand_def)
  ultimately show ?thesis
    using k(2,4) by blast
qed

theorem first_match_wins_witness:
  "test (pattern (voiceCommands ! 1)) (units ''show my risk and then start a new assessment'')
   \<and> test (pattern (voiceCommands ! 0)) (units ''show my risk and then start a new assessment'')
   \<and> map_option action (matchedCommand (units ''show my risk and then start a new assessment''))
       = Some ''show_risk''"
proof -
  let ?t = "units ''show my risk and then start a new assessment''"
  have len: "1 < length voiceCommands"
    by (simp add: voiceCommands_def)
  have h1: "test (pattern (voiceCommands ! 1)) ?t"
    by code_simp
  have h0: "test (pattern (voiceCommands ! 0)) ?t"
    by code_simp
  obtain k where k: "k \<le> 1" "matchedCommand ?t = Some (voiceCommands ! k)"
      "\<forall>j<k. \<not> test (pattern (voiceCommands ! j)) ?t"
    using first_match_wins [OF len h1] by blast
  have "k = 0"
  proof (rule ccontr)
    assume "k \<noteq> 0"
    then have "0 < k" by simp
    with k(3) h0 show False by blast
  qed
  with k(2) have "map_option action (matchedCommand ?t) = Some ''show_risk''"
    by (simp add: voiceCommands_def)
  with h0 h1 show ?thesis by simp
qed

section \<open>Lower-casing and trimming\<close>


lemma isLineTerminator_lower [simp]: "isLineTerminator (toLowerCase_unit c) = isLineTerminator c"
  by (auto simp: isLineTerminator_def toLowerCase_unit_def)

lemma isWhiteSpace_lower [simp]: "isWhiteSpace (toLowerCase_unit c) = isWhiteSpace c"
  by (auto simp: isWhiteSpace_def toLowerCase_unit_def)

lemma toLowerCase_unit_idem [simp]: "toLowerCase_unit (toLowerCase_unit c) = toLowerCase_unit c"
  by (auto simp: toLowerCase_unit_def)

lemma latin1_Cons [simp]: "latin1 (c # s) = (0 \<le> c \<and> c \<le> 0xFF \<and> latin1 s)"
  by (simp add: latin1_def)

lemma latin1_Nil [simp]: "latin1 []"
  by (simp add: latin1_def)

lemma toLowerCase_latin1: "latin1 s \<Longrightarrow> toLowerCase ul s = map toLowerCase_unit s"
proof -
  assume "latin1 s"
  then have "list_all modelled_unit s"
    by (induction s) (simp_all add: modelled_unit_def)
  then show ?thesis by (simp add: toLowerCase_def)
qed


lemma latin1_subset: "latin1 s \<Longrightarrow> set u \<subseteq> set s \<Longrightarrow> latin1 u"
  by (auto simp: latin1_def list_all_iff)

lemma latin1_trim: "latin1 s \<Longrightarrow> latin1 (trim s)"
proof -
  assume l: "latin1 s"
  have "set (trim s) \<subseteq> set s"
    by (auto simp: trim_def dest!: set_dropWhileD)
  with l show ?thesis by (rule latin1_subset)
qed














text \<open>Every literal of the table is a letter a-z, as the comparison of literals supposes.\<close>

lemma table_literals:
  "list_all (\<lambda>cmd. list_all (list_all (\<lambda>a. a = DotStar \<or> is_letter_atom a)) (pattern cmd))
     voiceCommands"
  by code_simp




lemma toLowerCase_unit_trim: "map toLowerCase_unit (trim s) = trim (map toLowerCase_unit s)"
proof -
  have d: "\<And>xs. dropWhile isWhiteSpace (map toLowerCase_unit xs)
             = map toLowerCase_unit (dropWhile isWhiteSpace xs)"
    by (simp add: dropWhile_map comp_def)
  show ?thesis
    by (simp add: trim_def rev_map d)
qed

lemma toLowerCase_trim: "latin1 s \<Longrightarrow> toLowerCase ul (trim s) = trim (toLowerCase ul s)"
  by (simp add: toLowerCase_latin1 latin1_trim toLowerCase_unit_trim)

lemma dropWhile_id: "xs = [] \<or> \<not> P (hd xs) \<Longrightarrow> dropWhile P xs = xs"
  by (cases xs) auto

lemma dropWhile_edge: "dropWhile P xs = [] \<or> \<not> P (hd (dropWhile P xs))"
  using hd_dropWhile by blast

lemma trim_idem [simp]: "trim (trim s) = trim s"
proof -
  define a where "a = dropWhile isWhiteSpace s"
  define b where "b = dropWhile isWhiteSpace (rev a)"
  have t: "trim s = rev b" by (simp add: trim_def a_def b_def)
  have b_edge: "b = [] \<or> \<not> isWhiteSpace (hd b)"
    unfolding b_def by (rule dropWhile_edge)
  have a_edge: "a = [] \<or> \<not> isWhiteSpace (hd a)"
    unfolding a_def by (rule dropWhile_edge)
  have "suffix b (rev a)" unfolding b_def by (rule suffix_dropWhile)
  then have last_b: "b \<noteq> [] \<Longrightarrow> last b = hd a"
    by (auto simp: suffix_def last_rev [symmetric] simp del: last_rev)
  have hf: "dropWhile isWhiteSpace (rev b) = rev b"
  proof (rule dropWhile_id)
    show "rev b = [] \<or> \<not> isWhiteSpace (hd (rev b))"
    proof (cases "b = []")
      case True then show ?thesis by simp
    next
      case False
      then have "a \<noteq> []" using \<open>suffix b (rev a)\<close> by (auto simp: suffix_def)
      with a_edge last_b False show ?thesis by (simp add: hd_rev)
    qed
  qed
  have hb: "dropWhile isWhiteSpace b = b"
    using b_edge by (rule dropWhile_id)
  show ?thesis
    unfolding t by (simp add: trim_def hf hb)
qed









section \<open>Lifestyle tips\<close>

subsection \<open>The product of a random number and the length 5 stays below 5\<close>

lemma shift_for_le: "M < 2 ^ 53 * 2 ^ k \<Longrightarrow> shift_for M \<le> k"
proof (induction k arbitrary: M)
  case 0
  then show ?case by (simp add: shift_for.simps)
next
  case (Suc k)
  show ?case
  proof (cases "M < 2 ^ 53")
    case True
    then show ?thesis by (simp add: shift_for.simps)
  next
    case False
    from Suc.prems have "M < 2 * (2 ^ 53 * 2 ^ k)" by simp
    then have "M div 2 < 2 ^ 53 * 2 ^ k" by linarith
    then have "shift_for (M div 2) \<le> k" by (rule Suc.IH)
    with False show ?thesis by (subst shift_for.simps) simp
  qed
qed

lemma shift_for_pos: "shift_for M \<noteq> 0 \<Longrightarrow> 2 ^ 53 \<le> M"
  by (subst (asm) shift_for.simps) (simp split: if_splits)

lemma round_half_even_bounds:
  assumes "0 \<le> M"
  shows "0 \<le> round_half_even M s" and "2 * round_half_even M s * 2 ^ s \<le> 2 * M + 2 ^ s"
proof -
  define q where "q = M div 2 ^ s"
  define r where "r = M mod 2 ^ s"
  have M: "M = q * 2 ^ s + r" unfolding q_def r_def by (rule div_mult_mod_eq [symmetric])
  have r: "0 \<le> r" "r < 2 ^ s" by (simp_all add: r_def)
  have q: "0 \<le> q" using assms by (simp add: q_def pos_imp_zdiv_nonneg_iff)
  show "0 \<le> round_half_even M s"
    using q by (simp add: round_half_even_def Let_def q_def [symmetric] r_def [symmetric])
  have cases: "round_half_even M s = q \<or> (round_half_even M s = q + 1 \<and> 2 ^ s \<le> 2 * r)"
    by (auto simp: round_half_even_def Let_def q_def [symmetric] r_def [symmetric])
  show "2 * round_half_even M s * 2 ^ s \<le> 2 * M + 2 ^ s"
  proof -
    have "2 * q * 2 ^ s \<le> 2 * M + 2 ^ s
        \<and> (2 ^ s \<le> 2 * r \<longrightarrow> 2 * (q + 1) * 2 ^ s \<le> 2 * M + 2 ^ s)"
      using r unfolding M by (simp add: algebra_simps)
    with cases show ?thesis by auto
  qed
qed

lemma below_one:
  assumes "value64 x < 1" "0 < mant x"
  shows "expo x < 0" and "mant x < 2 ^ nat (- expo x)"
proof -
  show e: "expo x < 0"
  proof (rule ccontr)
    assume "\<not> expo x < 0"
    then have "(1::real) \<le> 2 powi expo x" by (simp add: one_le_power_int)
    moreover have "(1::real) \<le> of_int (mant x)" using assms(2) by simp
    ultimately have "1 * 1 \<le> of_int (mant x) * (2::real) powi expo x"
      by (intro mult_mono) simp_all
    with assms(1) show False by (simp add: value64_def)
  qed
  have "(2::real) powi expo x = inverse (2 ^ nat (- expo x))"
    using e by (simp add: power_int_def inverse_eq_divide power_divide)
  with assms(1) have "real_of_int (mant x) / 2 ^ nat (- expo x) < 1"
    by (simp add: value64_def divide_inverse)
  then have "real_of_int (mant x) < 2 ^ nat (- expo x)"
    by simp
  then have "real_of_int (mant x) < real_of_int (2 ^ nat (- expo x))"
    by simp
  then show "mant x < 2 ^ nat (- expo x)"
    by (simp only: of_int_less_iff)
qed

lemma index_below_five:
  assumes "is_double x" "value64 x < 1"
  shows "0 \<le> floor64 (times_length x 5) \<and> floor64 (times_length x 5) < 5"
proof (cases "mant x = 0")
  case True
  have "shift_for 0 = 0" by (simp add: shift_for.simps)
  with True show ?thesis
    by (simp add: floor64_def times_length_def Let_def round_half_even_def)
next
  case False
  define m where "m = mant x"
  define n where "n = nat (- expo x)"
  define M where "M = m * 5"
  define s where "s = shift_for M"
  define R where "R = round_half_even M s"
  from False assms(1) have m: "0 < m" "m < 2 ^ 53"
    by (simp_all add: is_double_def m_def)
  from below_one [OF assms(2)] m(1) have e: "expo x < 0" and mP: "m < 2 ^ n"
    by (simp_all add: m_def n_def)
  have M0: "0 \<le> M" using m(1) by (simp add: M_def)
  have "M < 2 ^ 53 * 2 ^ 3" using m(2) by (simp add: M_def)
  then have s3: "s \<le> 3" unfolding s_def by (rule shift_for_le)
  have sn: "s < n"
  proof (cases "s = 0")
    case True
    from e have "0 < n" by (simp add: n_def)
    with True show ?thesis by simp
  next
    case False
    then have "2 ^ 53 \<le> M" unfolding s_def by (rule shift_for_pos)
    then have "(2::int) ^ 50 < m" by (simp add: M_def)
    with mP have "(2::int) ^ 50 < 2 ^ n" by linarith
    then have "50 < n" by (simp only: power_strict_increasing_iff)
    with s3 show ?thesis by simp
  qed
  have R0: "0 \<le> R" and Rb: "2 * R * 2 ^ s \<le> 2 * M + 2 ^ s"
    unfolding R_def using round_half_even_bounds [OF M0] by blast+
  have "(2::int) ^ s \<le> 2 ^ 3" using s3 by (intro power_increasing) simp_all
  then have s8: "(2::int) ^ s \<le> 8" by simp
  have split: "(2::int) ^ n = 2 ^ (n - s) * 2 ^ s"
    using sn by (simp flip: power_add)
  from mP have "M \<le> 5 * 2 ^ n - 5" by (simp add: M_def)
  with Rb s8 have "2 * R * 2 ^ s < 2 * (5 * 2 ^ n)" by linarith
  then have "R * 2 ^ s < (5 * 2 ^ (n - s)) * 2 ^ s" by (simp add: split)
  then have Rlt: "R < 5 * 2 ^ (n - s)" by simp
  have fl: "floor64 (times_length x 5) = R div 2 ^ (n - s)"
  proof -
    have "expo x + int s < 0" using sn e by (simp add: n_def)
    moreover have "nat (- (expo x + int s)) = n - s" using sn e by (simp add: n_def)
    ultimately show ?thesis
      by (simp add: floor64_def times_length_def Let_def R_def s_def M_def m_def)
  qed
  have "0 \<le> R div 2 ^ (n - s)" using R0 by (simp add: pos_imp_zdiv_nonneg_iff)
  moreover have "R div 2 ^ (n - s) < 5"
  proof (rule ccontr)
    assume "\<not> R div 2 ^ (n - s) < 5"
    then have "5 * 2 ^ (n - s) \<le> R div 2 ^ (n - s) * 2 ^ (n - s)"
      by (intro mult_right_mono) simp_all
    moreover have "R = R div 2 ^ (n - s) * 2 ^ (n - s) + R mod 2 ^ (n - s)"
      by (rule div_mult_mod_eq [symmetric])
    moreover have "0 \<le> R mod (2::int) ^ (n - s)"
      by simp
    ultimately show False using Rlt by linarith
  qed
  ultimately show ?thesis by (simp add: fl)
qed

lemma pick_member:
  assumes "is_double rnd" "value64 rnd < 1" "length xs = 5"
  shows "pick xs rnd \<in> set xs"
proof -
  from index_below_five [OF assms(1,2)]
  have "0 \<le> floor64 (times_length rnd 5)" "nat (floor64 (times_length rnd 5)) < 5"
    by ((elim conjE, linarith)+)
  with assms(3) show ?thesis
    by (simp add: pick_def Let_def)
qed

subsection \<open>The tip is one of the list\<close>

text \<open>
  C8. The tip in a lifestyle reply is a member of the fixed list of tips. For every value
  \<open>rnd\<close> that \<open>Math.random()\<close> can return (a binary64 number that is at least 0 and
  below 1) the tip chosen by \<open>provideLifestyleTips\<close> is one of the five entries of
  \<open>tips\<close> and the reply is that tip between two fixed sentences; likewise
  \<open>getPersonalizedTips\<close> of the voice assistant screen chooses from the five entries of
  its own list.
\<close>

theorem tip_from_fixed_list:
  assumes "is_double rnd" and "value64 rnd < 1"
  shows "randomTip rnd \<in> set tips
         \<and> assistant_messages (provideLifestyleTips rnd)
             = [''Here's a personalized health tip: '' @ randomTip rnd
                @ '' Would you like more specific advice for your situation?'']
         \<and> va_randomTip rnd \<in> set va_tips
         \<and> getPersonalizedTips rnd
             = [AddToConversation SAi (units (''Here's a personalized tip: '' @ va_randomTip rnd
                  @ ''. Would you like more specific advice for your risk profile?'')),
                VaSpeak (units (''Here's a personalized tip: '' @ va_randomTip rnd
                  @ ''. Would you like more specific advice for your risk profile?''))]"
proof -
  have "length tips = 5" "length va_tips = 5" by (simp_all add: tips_def va_tips_def)
  with assms have "randomTip rnd \<in> set tips" "va_randomTip rnd \<in> set va_tips"
    by (simp_all add: randomTip_def va_randomTip_def pick_member)
  moreover have "assistant_messages (provideLifestyleTips rnd)
             = [''Here's a personalized health tip: '' @ randomTip rnd
                @ '' Would you like more specific advice for your situation?'']"
    by (simp add: provideLifestyleTips_def addVoiceMessage_def assistant_messages_def speak_def)
  moreover have "getPersonalizedTips rnd
             = [AddToConversation SAi (units (''Here's a personalized tip: '' @ va_randomTip rnd
                  @ ''. Would you like more specific advice for your risk profile?'')),
                VaSpeak (units (''Here's a personalized tip: '' @ va_randomTip rnd
                  @ ''. Would you like more specific advice for your risk profile?''))]"
    by (simp add: getPersonalizedTips_def Let_def)
  ultimately show ?thesis by blast
qed

text \<open>
  An instance: the binary64 number 0.6, that is \<open>5404319552844595 * 2 ^ -53\<close>. Five
  times it is just below 3 and rounds to 3, so the fourth tip is read.
\<close>

theorem tip_from_fixed_list_witness:
  "is_double \<lparr>mant = 5404319552844595, expo = - 53\<rparr>
   \<and> value64 \<lparr>mant = 5404319552844595, expo = - 53\<rparr> < 1
   \<and> floor64 (times_length \<lparr>mant = 5404319552844595, expo = - 53\<rparr> 5) = 3
   \<and> randomTip \<lparr>mant = 5404319552844595, expo = - 53\<rparr>
       = ''Getting 7-9 hours of quality sleep each night is crucial for heart health.''
   \<and> randomTip \<lparr>mant = 5404319552844595, expo = - 53\<rparr> \<in> set tips
   \<and> va_randomTip \<lparr>mant = 5404319552844595, expo = - 53\<rparr>
       = ''Practice stress-reduction techniques daily''
   \<and> va_randomTip \<lparr>mant = 5404319552844595, expo = - 53\<rparr> \<in> set va_tips"
proof -
  have h: "is_double \<lparr>mant = 5404319552844595, expo = - 53\<rparr>"
    "value64 \<lparr>mant = 5404319552844595, expo = - 53\<rparr> < 1"
    by (simp_all add: is_double_def value64_def power_int_minus field_simps)
  have f: "floor64 (times_length \<lparr>mant = 5404319552844595, expo = - 53\<rparr> 5) = 3"
    by code_simp
  have "randomTip \<lparr>mant = 5404319552844595, expo = - 53\<rparr>
      = ''Getting 7-9 hours of quality sleep each night is crucial for heart health.''"
    by code_simp
  moreover have "va_randomTip \<lparr>mant = 5404319552844595, expo = - 53\<rparr>
      = ''Practice stress-reduction techniques daily''"
    by code_simp
  ultimately show ?thesis
    using tip_from_fixed_list [OF h] h f by simp
qed

section \<open>Actions and replies of the enhanced voice screen\<close>

lemma assistant_messages_append [simp]:
  "assistant_messages (xs @ ys) = assistant_messages xs @ assistant_messages ys"
  by (simp add: assistant_messages_def)

lemma assistant_messages_Cons_Router [simp]:
  "assistant_messages [RouterPush p] = []"
  by (simp add: assistant_messages_def)

lemma assistant_messages_addVoiceMessage [simp]:
  "assistant_messages (addVoiceMessage Assistant x) = [x]"
  by (simp add: assistant_messages_def addVoiceMessage_def speak_def)

lemma assistant_messages_addHealthAlert [simp]:
  "assistant_messages (addHealthAlert x sev ty) = []"
  by (simp add: assistant_messages_def addHealthAlert_def speak_def)

lemma assistant_messages_stopListening [simp]:
  "assistant_messages (stopListening st) = []"
  by (simp add: assistant_messages_def stopListening_def)

lemma one_reply_showCurrentRisk: "length (assistant_messages (showCurrentRisk st)) = 1"
  by (simp add: showCurrentRisk_def split: option.split)

lemma one_reply_repeatLastResult: "length (assistant_messages (repeatLastResult st)) = 1"
  by (simp add: repeatLastResult_def split: list.split)

lemma one_reply_explain: "length (assistant_messages explainLatestResults) = 1"
  by (simp add: explainLatestResults_def)

lemma one_reply_tips: "length (assistant_messages (provideLifestyleTips rnd)) = 1"
  by (simp add: provideLifestyleTips_def)

lemma one_reply_query: "length (assistant_messages (processNaturalLanguageQuery ul st rnd q)) = 1"
  by (simp add: processNaturalLanguageQuery_def Let_def one_reply_tips)

lemma one_reply_action: "length (assistant_messages (executeVoiceAction ul st rnd act t)) = 1"
  by (simp add: executeVoiceAction_def one_reply_showCurrentRisk one_reply_repeatLastResult
      one_reply_explain one_reply_tips one_reply_query)

lemma one_reply: "length (assistant_messages (processVoiceCommand ul st rnd t)) = 1"
  by (simp add: processVoiceCommand_def one_reply_action one_reply_query split: option.split)

lemma matched_in_table: "matchedCommand t = Some cmd \<Longrightarrow> cmd \<in> set voiceCommands"
  unfolding matchedCommand_def find_Some_iff by auto

lemma table_actions:
  "action ` set voiceCommands =
     {''show_risk'', ''start_assessment'', ''explain_results'', ''medication_reminder'',
      ''emergency_help'', ''next_question'', ''repeat_last'', ''lifestyle_tips'', ''stop_listening''}"
  by (simp add: voiceCommands_def)

text \<open>
  C5, as amended. The action found for a transcript is one of the nine actions of the rule
  table (show_risk, start_assessment, explain_results, medication_reminder, emergency_help,
  next_question, repeat_last, lifestyle_tips, stop_listening), or there is none and the
  keyword fallback answers; and every transcript is answered by exactly one assistant
  message.
\<close>

theorem action_closed_set_one_reply:
  "map_option action (matchedCommand t)
     \<in> {None, Some ''show_risk'', Some ''start_assessment'', Some ''explain_results'',
         Some ''medication_reminder'', Some ''emergency_help'', Some ''next_question'',
         Some ''repeat_last'', Some ''lifestyle_tips'', Some ''stop_listening''}
   \<and> length (assistant_messages (processVoiceCommand ul st rnd t)) = 1"
proof (cases "matchedCommand t")
  case None
  then show ?thesis by (simp add: one_reply)
next
  case (Some cmd)
  then have "action cmd \<in> action ` set voiceCommands"
    using matched_in_table by blast
  then show ?thesis
    unfolding table_actions using Some by (auto simp: one_reply)
qed

theorem action_closed_set_one_reply_witness:
  "map_option action (matchedCommand (units ''please continue'')) = Some ''next_question''
   \<and> length (assistant_messages (processVoiceCommand no_tables
         \<lparr>riskData = None, voiceMessages = [], isListening = False, recognitionRef = False\<rparr>
         \<lparr>mant = 0, expo = 0\<rparr> (units ''please continue''))) = 1"
proof -
  have "map_option action (matchedCommand (units ''please continue'')) = Some ''next_question''"
    by code_simp
  with action_closed_set_one_reply [of "units ''please continue''"] show ?thesis
    by blast
qed

text \<open>
  Counterexample to C5 as stated: the transcript "pause" is classified as
  \<open>stop_listening\<close>, which is not among the ten intents the claim lists.
\<close>

theorem stop_listening_outside_spec_set:
  "map_option action (matchedCommand (units ''pause'')) = Some ''stop_listening''
   \<and> ''stop_listening'' \<notin> {''show_risk'', ''explain_results'', ''start_assessment'', ''health_tips'',
        ''medication_reminder'', ''emergency_help'', ''next_question'', ''repeat_last'',
        ''lifestyle_tips'', ''unknown''}"
proof -
  have "map_option action (matchedCommand (units ''pause'')) = Some ''stop_listening''"
    by code_simp
  then show ?thesis by simp
qed

section \<open>Transcripts that match no rule\<close>

text \<open>
  Counterexample to C6 as stated: "tell me about stroke" matches no rule of the table, yet
  the reply is the statement about the stroke risk, which asks nothing.
\<close>

theorem stroke_query_not_clarifying:
  "matchedCommand (units ''tell me about stroke'') = None
   \<and> processVoiceCommand no_tables
        \<lparr>riskData = None, voiceMessages = [], isListening = False, recognitionRef = False\<rparr>
        \<lparr>mant = 0, expo = 0\<rparr> (units ''tell me about stroke'')
      = [SetVoiceMessages \<lparr>msg_role = Assistant, msg_text = ''Your stroke risk is currently low level. Key factors that influence stroke risk include blood pressure, age, and lifestyle habits. Keep up the good work managing your cardiovascular health!''\<rparr>,
         Speak ''Your stroke risk is currently low level. Key factors that influence stroke risk include blood pressure, age, and lifestyle habits. Keep up the good work managing your cardiovascular health!'' PLow]
   \<and> CHR ''?'' \<notin> set ''Your stroke risk is currently low level. Key factors that influence stroke risk include blood pressure, age, and lifestyle habits. Keep up the good work managing your cardiovascular health!''"
proof -
  have m: "matchedCommand (units ''tell me about stroke'') = None"
    by code_simp
  have a: "\<not> includes_str (toLowerCase no_tables (units ''tell me about stroke'')) (units ''heart attack'')"
    by code_simp
  have b: "includes_str (toLowerCase no_tables (units ''tell me about stroke'')) (units ''stroke'')"
    by code_simp
  show ?thesis
    by (simp add: m processVoiceCommand_def processNaturalLanguageQuery_def Let_def a b
        score_or_def addVoiceMessage_def speak_def)
qed

text \<open>
  C6, as amended. A transcript that matches no rule is handed to the keyword fallback
  \<open>processNaturalLanguageQuery\<close>, which answers with exactly one assistant message and
  raises nothing. When the lower-cased transcript contains none of "heart attack",
  "stroke", "improve" and "better" (as "asdfasdf" does not), that message is the fixed
  clarifying question; otherwise it is the heart attack, stroke or lifestyle tip reply.
  The code attaches no intent label and no confidence to the outcome.
\<close>

theorem no_match_fallback:
  assumes "matchedCommand t = None"
  shows "processVoiceCommand ul st rnd t = processNaturalLanguageQuery ul st rnd t
         \<and> length (assistant_messages (processVoiceCommand ul st rnd t)) = 1
         \<and> (\<not> includes_str (toLowerCase ul t) (units ''heart attack'')
            \<and> \<not> includes_str (toLowerCase ul t) (units ''stroke'')
            \<and> \<not> includes_str (toLowerCase ul t) (units ''improve'')
            \<and> \<not> includes_str (toLowerCase ul t) (units ''better'')
            \<longrightarrow> processVoiceCommand ul st rnd t
                = addVoiceMessage Assistant
                    ''I'm here to help with your heart health questions. You can ask me about your risk levels, request health tips, start a new assessment, or ask for explanations of your results. What would you like to know?'')"
proof -
  have p: "processVoiceCommand ul st rnd t = processNaturalLanguageQuery ul st rnd t"
    using assms by (simp add: processVoiceCommand_def)
  moreover have "length (assistant_messages (processNaturalLanguageQuery ul st rnd t)) = 1"
    by (rule one_reply_query)
  ultimately show ?thesis
    by (simp add: processNaturalLanguageQuery_def Let_def)
qed

theorem no_match_fallback_witness:
  "matchedCommand (units ''asdfasdf'') = None
   \<and> processVoiceCommand no_tables
        \<lparr>riskData = None, voiceMessages = [], isListening = False, recognitionRef = False\<rparr>
        \<lparr>mant = 0, expo = 0\<rparr> (units ''asdfasdf'')
       = addVoiceMessage Assistant
           ''I'm here to help with your heart health questions. You can ask me about your risk levels, request health tips, start a new assessment, or ask for explanations of your results. What would you like to know?''"
proof -
  have m: "matchedCommand (units ''asdfasdf'') = None"
    by code_simp
  have k: "\<not> includes_str (toLowerCase no_tables (units ''asdfasdf'')) (units ''heart attack'')"
    "\<not> includes_str (toLowerCase no_tables (units ''asdfasdf'')) (units ''stroke'')"
    "\<not> includes_str (toLowerCase no_tables (units ''asdfasdf'')) (units ''improve'')"
    "\<not> includes_str (toLowerCase no_tables (units ''asdfasdf'')) (units ''better'')"
    by code_simp+
  from no_match_fallback [OF m] k m show ?thesis
    by blast
qed

section \<open>The emergency rule\<close>

text \<open>
  C2. A transcript that matches the emergency pattern is not always answered by the
  emergency handler. On the enhanced voice screen the emergency rule is the fifth of the
  table, and "i took too many pills this is an emergency" is taken by the fourth rule:
  the reply is the medication reminder with an alert of severity medium, and nothing
  tells the user to call emergency services. On the voice assistant screen the emergency
  branch is the sixth of the keyword chain, and "i am having a heart attack this is an
  emergency" is answered by the first branch with the statement about the risk level.
\<close>

theorem emergency_dropped_by_earlier_rule:
  "test (pattern (voiceCommands ! 4)) (units ''i took too many pills this is an emergency'')
   \<and> action (voiceCommands ! 4) = ''emergency_help''
   \<and> processVoiceCommand ul st rnd (units ''i took too many pills this is an emergency'')
      = [SetHealthAlerts \<lparr>alert_text = ''Reminder: Take your prescribed heart medication'',
                          alert_severity = Medium, alert_type = Medication\<rparr>,
         SetVoiceMessages \<lparr>msg_role = Assistant, msg_text = ''I've added a medication reminder for you. Don't forget to take your prescribed heart medication.''\<rparr>,
         Speak ''I've added a medication reminder for you. Don't forget to take your prescribed heart medication.'' PLow]
   \<and> getAIHealthCoachResponse no_tables
        (units ''i am having a heart attack this is an emergency'')
      = \<lparr>message = ''Based on your latest assessment, your heart attack risk is currently at a medium level. This is primarily influenced by factors like cholesterol levels and lifestyle habits. Would you like specific recommendations to reduce this risk?'',
         ai_action = Some ''show_heart_attack_details''\<rparr>"
proof -
  have e: "test (pattern (voiceCommands ! 4)) (units ''i took too many pills this is an emergency'')"
    by code_simp
  have a: "action (voiceCommands ! 4) = ''emergency_help''"
    by (simp add: voiceCommands_def)
  have "map_option action (matchedCommand (units ''i took too many pills this is an emergency''))
      = Some ''medication_reminder''"
    by code_simp
  then obtain cmd where c:
      "matchedCommand (units ''i took too many pills this is an emergency'') = Some cmd"
      "action cmd = ''medication_reminder''"
    by auto
  then have p: "processVoiceCommand ul st rnd (units ''i took too many pills this is an emergency'')
      = [SetHealthAlerts \<lparr>alert_text = ''Reminder: Take your prescribed heart medication'',
                          alert_severity = Medium, alert_type = Medication\<rparr>,
         SetVoiceMessages \<lparr>msg_role = Assistant, msg_text = ''I've added a medication reminder for you. Don't forget to take your prescribed heart medication.''\<rparr>,
         Speak ''I've added a medication reminder for you. Don't forget to take your prescribed heart medication.'' PLow]"
    by (simp add: processVoiceCommand_def executeVoiceAction_def addVoiceMessage_def
        addHealthAlert_def speak_def)
  have k: "includes_str (toLowerCase no_tables
        (units ''i am having a heart attack this is an emergency'')) (units ''heart attack'')"
    by code_simp
  have g: "getAIHealthCoachResponse no_tables
        (units ''i am having a heart attack this is an emergency'')
      = \<lparr>message = ''Based on your latest assessment, your heart attack risk is currently at a medium level. This is primarily influenced by factors like cholesterol levels and lifestyle habits. Would you like specific recommendations to reduce this risk?'',
         ai_action = Some ''show_heart_attack_details''\<rparr>"
    by (simp add: getAIHealthCoachResponse_def Let_def k)
  from e a p g show ?thesis by blast
qed

lemma emergency_first_iff:
  "map_option action (matchedCommand t) = Some ''emergency_help''
   \<longleftrightarrow> test (pattern (voiceCommands ! 4)) t \<and> \<not> test (pattern (voiceCommands ! 0)) t
     \<and> \<not> test (pattern (voiceCommands ! 1)) t \<and> \<not> test (pattern (voiceCommands ! 2)) t
     \<and> \<not> test (pattern (voiceCommands ! 3)) t"
  by (simp add: matchedCommand_def voiceCommands_def)

text \<open>
  What the emergency handler does once it is reached, that is when the emergency rule is
  the first to match: the message that tells the user to call 911 immediately, and a
  health alert of severity high and type emergency, spoken at once at high priority,
  whatever the state and the random draw.
\<close>

lemma emergency_handler_reply:
  assumes "map_option action (matchedCommand t) = Some ''emergency_help''"
  shows "processVoiceCommand ul st rnd t
      = [SetVoiceMessages \<lparr>msg_role = Assistant, msg_text = ''If you're experiencing a medical emergency, please call 911 immediately. For non-urgent medical questions, contact your healthcare provider.''\<rparr>,
         Speak ''If you're experiencing a medical emergency, please call 911 immediately. For non-urgent medical questions, contact your healthcare provider.'' PLow,
         SetHealthAlerts \<lparr>alert_text = ''Emergency resources available if needed'',
                          alert_severity = High, alert_type = Emergency\<rparr>,
         Speak ''Important alert: Emergency resources available if needed'' PHigh]"
proof -
  from assms obtain cmd where c: "matchedCommand t = Some cmd" "action cmd = ''emergency_help''"
    by auto
  then show ?thesis
    by (simp add: processVoiceCommand_def executeVoiceAction_def addVoiceMessage_def
        addHealthAlert_def speak_def)
qed

section \<open>The random draw\<close>

lemma erase_tips:
  "map erase_text (provideLifestyleTips rnd)
     = [SetVoiceMessages \<lparr>msg_role = Assistant, msg_text = []\<rparr>, Speak [] PLow]"
  by (simp add: provideLifestyleTips_def addVoiceMessage_def speak_def)

lemma erase_query:
  "map erase_text (processNaturalLanguageQuery ul st r1 q)
     = map erase_text (processNaturalLanguageQuery ul st r2 q)"
  by (simp add: processNaturalLanguageQuery_def Let_def erase_tips)

lemma erase_action:
  "map erase_text (executeVoiceAction ul st r1 act t)
     = map erase_text (executeVoiceAction ul st r2 act t)"
  by (simp add: executeVoiceAction_def erase_tips erase_query)

lemma action_rnd_free:
  assumes "act \<in> action ` set voiceCommands" "act \<noteq> ''lifestyle_tips''"
  shows "executeVoiceAction ul st r1 act t = executeVoiceAction ul st r2 act t"
  using assms unfolding table_actions
  by (auto simp: executeVoiceAction_def)

text \<open>
  C4. Processing is a function of the transcript, the state and the random draw, and only
  the wording of the reply depends on the draw: for two draws \<open>r1\<close> and \<open>r2\<close> the
  effects agree once the reply text is blanked (same messages by role and order, same
  alerts with their severity, same navigation), and they agree entirely unless the
  transcript is one that is answered with a sampled lifestyle tip. The rule found,
  \<open>matchedCommand\<close>, takes the transcript alone. The code computes no confidence and no
  entities.
\<close>

theorem process_independent_of_random:
  "map erase_text (processVoiceCommand ul st r1 t) = map erase_text (processVoiceCommand ul st r2 t)
   \<and> (\<not> samples_tip ul t \<longrightarrow> processVoiceCommand ul st r1 t = processVoiceCommand ul st r2 t)"
proof (cases "matchedCommand t")
  case None
  then show ?thesis
    by (auto simp: processVoiceCommand_def erase_query samples_tip_def
        processNaturalLanguageQuery_def Let_def erase_tips)
next
  case (Some cmd)
  then have "action cmd \<in> action ` set voiceCommands"
    using matched_in_table by blast
  then have "action cmd \<noteq> ''lifestyle_tips'' \<Longrightarrow>
      executeVoiceAction ul st r1 (action cmd) t = executeVoiceAction ul st r2 (action cmd) t"
    by (rule action_rnd_free)
  with Some show ?thesis
    by (simp add: processVoiceCommand_def erase_action samples_tip_def)
qed

theorem process_independent_of_random_witness:
  "\<not> samples_tip no_tables (units ''show current risk'')
   \<and> processVoiceCommand no_tables
        \<lparr>riskData = None, voiceMessages = [], isListening = False, recognitionRef = False\<rparr>
        \<lparr>mant = 0, expo = 0\<rparr> (units ''show current risk'')
      = processVoiceCommand no_tables
          \<lparr>riskData = None, voiceMessages = [], isListening = False, recognitionRef = False\<rparr>
          \<lparr>mant = 1, expo = - 1\<rparr> (units ''show current risk'')"
proof -
  have h: "\<not> samples_tip no_tables (units ''show current risk'')"
    by code_simp
  from process_independent_of_random
         [of no_tables _ "\<lparr>mant = 0, expo = 0\<rparr>" "units ''show current risk''"
             "\<lparr>mant = 1, expo = - 1\<rparr>"] h
  show ?thesis
    by blast
qed

section \<open>Missing risk data\<close>

text \<open>
  The sibling handler of the enhanced voice screen does answer when the risk data is
  missing.
\<close>

lemma showCurrentRisk_no_data:
  "riskData st = None \<Longrightarrow>
   showCurrentRisk st = addVoiceMessage Assistant
     ''I don't have your current risk data available. Would you like to start a new assessment to get updated risk calculations?''"
  by (simp add: showCurrentRisk_def)

text \<open>
  C3. On the voice assistant screen the command "what is my heart attack risk" runs
  \<open>getLatestRisk\<close> and announces that it is executing. When the backend returns no
  prediction, a prediction without risks, or risks without an entry for the heart attack,
  \<open>getLatestRisk\<close> raises nothing but also says nothing: there is no message that asks the
  user to complete an assessment.
\<close>

theorem getLatestRisk_silent_without_data:
  "va_processVoiceCommand ul (units ''what is my heart attack risk'')
     = [RunAction (GetLatestRisk ''heart_attack''),
        AddToConversation SAi (units ''Executing: Get your current heart attack risk level''),
        VaSpeak (units ''Executing: Get your current heart attack risk level'')]
   \<and> getLatestRisk ul toFixed1 (Resolved []) ''heart_attack'' = []
   \<and> getLatestRisk ul toFixed1 (Resolved [\<lparr>cardiovascular_risks = None\<rparr>]) ''heart_attack'' = []
   \<and> getLatestRisk ul toFixed1
        (Resolved [\<lparr>cardiovascular_risks =
            Some [(''stroke'', \<lparr>risk_level = Some (units ''Low''), probability = 1/10\<rparr>)]\<rparr>])
        ''heart_attack'' = []"
proof -
  have "va_matchedCommand (units ''what is my heart attack risk'')
      = Some \<lparr>command = ''what is my heart attack risk'', va_action = GetLatestRisk ''heart_attack'',
     va_description = ''Get your current heart attack risk level''\<rparr>"
    by code_simp
  then show ?thesis
    by (simp add: va_processVoiceCommand_def getLatestRisk_def Let_def)
qed

section \<open>Entities\<close>

lemma find_in_set: "find P xs = Some x \<Longrightarrow> x \<in> set xs"
  by (induction xs) (auto split: if_splits)

lemma first_keyword_values:
  "first_keyword table text = Some v \<Longrightarrow> v \<in> snd ` set table"
proof -
  assume "first_keyword table text = Some v"
  then obtain kv where kv: "find (\<lambda>kv. includes_str text (units (fst kv))) table = Some kv"
      "v = snd kv"
    by (auto simp: first_keyword_def)
  from kv(1) have "kv \<in> set table" by (rule find_in_set)
  with kv(2) show ?thesis by simp
qed

lemma first_keyword_found:
  "(first_keyword table text \<noteq> None)
     = list_ex (\<lambda>kw. includes_str text (units kw)) (map fst table)"
  by (simp add: first_keyword_def find_None_iff list_ex_iff Bex_def)

text \<open>
  C7. The entity extractor returns at most one condition and at most one severity, the
  condition from the vocabulary heart_attack, stroke, heart_failure, arrhythmia and the
  severity from low, medium, high; a key is present exactly when one of its keywords
  occurs in the lower-cased text, and absent otherwise; and the text
  "What is my heart attack risk?" yields the condition heart_attack alone.
\<close>

theorem extract_at_most_one_each:
  "length (filter (\<lambda>kv. fst kv = ''condition'') (extract_entities ul t)) \<le> 1
   \<and> length (filter (\<lambda>kv. fst kv = ''severity'') (extract_entities ul t)) \<le> 1
   \<and> distinct (map fst (extract_entities ul t))
   \<and> set (extract_entities ul t)
        \<subseteq> {''condition''} \<times> {''heart_attack'', ''stroke'', ''heart_failure'', ''arrhythmia''}
          \<union> {''severity''} \<times> {''low'', ''medium'', ''high''}
   \<and> (''condition'' \<in> fst ` set (extract_entities ul t))
        = list_ex (\<lambda>kw. includes_str (toLowerCase ul t) (units kw)) (map fst condition_keywords)
   \<and> (''severity'' \<in> fst ` set (extract_entities ul t))
        = list_ex (\<lambda>kw. includes_str (toLowerCase ul t) (units kw)) (map fst severity_words)
   \<and> extract_entities ul (units ''What is my heart attack risk?'')
        = [(''condition'', ''heart_attack'')]"
proof -
  have c: "\<And>v. first_keyword condition_keywords (toLowerCase ul t) = Some v \<Longrightarrow>
        v \<in> {''heart_attack'', ''stroke'', ''heart_failure'', ''arrhythmia''}"
    using first_keyword_values [of condition_keywords] by (force simp: condition_keywords_def)
  have s: "\<And>v. first_keyword severity_words (toLowerCase ul t) = Some v \<Longrightarrow>
        v \<in> {''low'', ''medium'', ''high''}"
    using first_keyword_values [of severity_words] by (force simp: severity_words_def)
  have fc: "(first_keyword condition_keywords (toLowerCase ul t) \<noteq> None)
      = list_ex (\<lambda>kw. includes_str (toLowerCase ul t) (units kw)) (map fst condition_keywords)"
    by (rule first_keyword_found)
  have fs: "(first_keyword severity_words (toLowerCase ul t) \<noteq> None)
      = list_ex (\<lambda>kw. includes_str (toLowerCase ul t) (units kw)) (map fst severity_words)"
    by (rule first_keyword_found)
  have m: "list_all modelled_unit (units ''What is my heart attack risk?'')"
    by code_simp
  have lo: "toLowerCase ul (units ''What is my heart attack risk?'')
      = units ''what is my heart attack risk?''"
    unfolding toLowerCase_def using m by (simp only: if_True) code_simp
  have ex: "extract_entities ul (units ''What is my heart attack risk?'')
      = [(''condition'', ''heart_attack'')]"
    unfolding extract_entities_def Let_def lo by code_simp
  show ?thesis
    unfolding fc [symmetric] fs [symmetric]
    using c s ex
    by (cases "first_keyword condition_keywords (toLowerCase ul t)";
        cases "first_keyword severity_words (toLowerCase ul t)")
       (simp_all add: extract_entities_def Let_def)
qed

theorem extract_at_most_one_each_witness:
  "extract_entities no_tables (units ''Is my STROKE risk severe?'')
     = [(''condition'', ''stroke''), (''severity'', ''high'')]
   \<and> length (filter (\<lambda>kv. fst kv = ''condition'')
        (extract_entities no_tables (units ''Is my STROKE risk severe?''))) \<le> 1
   \<and> extract_entities no_tables (units ''What is my heart attack risk?'')
        = [(''condition'', ''heart_attack'')]"
proof -
  have "extract_entities no_tables (units ''Is my STROKE risk severe?'')
      = [(''condition'', ''stroke''), (''severity'', ''high'')]"
    by code_simp
  with extract_at_most_one_each [of no_tables "units ''Is my STROKE risk severe?''"]
  show ?thesis
    by simp
qed

text \<open>
  The keyword chain of \<open>processNaturalLanguageQuery\<close>, the one place in the sources that
  looks for a condition in the text, takes its first branch exactly when the extractor
  finds heart_attack and its second exactly when the extractor finds stroke.
\<close>

lemma keyword_chain_agrees_with_extractor:
  "includes_str (toLowerCase ul q) (units ''heart attack'')
     = (map_of (extract_entities ul q) ''condition'' = Some ''heart_attack'')"
  "(\<not> includes_str (toLowerCase ul q) (units ''heart attack'')
      \<and> includes_str (toLowerCase ul q) (units ''stroke''))
     = (map_of (extract_entities ul q) ''condition'' = Some ''stroke'')"
  by (auto simp: extract_entities_def first_keyword_def condition_keywords_def Let_def
      split: option.splits)

section \<open>Transcripts contained in a command phrase\<close>

lemma find_contained_first:
  assumes "find (\<lambda>c. sublist t (f c)) xs = Some m" and "none_inside_later (map f xs)"
  shows "find (\<lambda>c. sublist (f c) t \<or> sublist t (f c)) xs = Some m"
  using assms
proof (induction xs)
  case Nil
  then show ?case by simp
next
  case (Cons x xs)
  show ?case
  proof (cases "sublist t (f x)")
    case True
    with Cons.prems show ?thesis by simp
  next
    case False
    with Cons.prems have m: "find (\<lambda>c. sublist t (f c)) xs = Some m" by simp
    then have "m \<in> set xs" by (rule find_in_set)
    moreover from m have "sublist t (f m)"
      by (induction xs) (auto split: if_splits)
    ultimately have "\<not> sublist (f x) t"
      using Cons.prems(2) sublist_order.order_trans [of "f x" t "f m"]
      by (auto simp: list_all_iff)
    with False Cons m show ?thesis by simp
  qed
qed

lemma commands_not_nested:
  "none_inside_later (map (\<lambda>cmd. units (command cmd)) va_voiceCommands)"
  by code_simp

text \<open>
  C10. In the command matcher of the voice assistant screen a transcript matches a command
  when either contains the other. For a transcript that is contained in some command
  phrase, the command found is the first command of the table that contains it; its action
  is run and announced, and the conversational handler is not reached.
\<close>

theorem contained_transcript_runs_command:
  assumes "find (\<lambda>cmd. includes_str (units (command cmd)) t) va_voiceCommands = Some m"
  shows "va_matchedCommand t = Some m
         \<and> va_processVoiceCommand ul t
             = [RunAction (va_action m),
                AddToConversation SAi (units (''Executing: '' @ va_description m)),
                VaSpeak (units (''Executing: '' @ va_description m))]
         \<and> va_processVoiceCommand ul t \<noteq> handleAIQuery ul t"
proof -
  from assms have "find (\<lambda>c. sublist t (units (command c))) va_voiceCommands = Some m"
    by (simp add: includes_str_def)
  then have "find (\<lambda>c. sublist (units (command c)) t \<or> sublist t (units (command c)))
      va_voiceCommands = Some m"
    using commands_not_nested by (rule find_contained_first)
  then have m: "va_matchedCommand t = Some m"
    by (simp add: va_matchedCommand_def includes_str_def)
  then have p: "va_processVoiceCommand ul t
             = [RunAction (va_action m),
                AddToConversation SAi (units (''Executing: '' @ va_description m)),
                VaSpeak (units (''Executing: '' @ va_description m))]"
    by (simp add: va_processVoiceCommand_def Let_def)
  have "hd (handleAIQuery ul t)
      = AddToConversation SAi (units (message (getAIHealthCoachResponse ul t)))"
    by (simp add: handleAIQuery_def Let_def)
  moreover from p have "hd (va_processVoiceCommand ul t) = RunAction (va_action m)"
    by simp
  ultimately have "va_processVoiceCommand ul t \<noteq> handleAIQuery ul t"
  proof (intro notI)
    assume h: "hd (handleAIQuery ul t)
        = AddToConversation SAi (units (message (getAIHealthCoachResponse ul t)))"
      and r: "hd (va_processVoiceCommand ul t) = RunAction (va_action m)"
      and e: "va_processVoiceCommand ul t = handleAIQuery ul t"
    from r e have "hd (handleAIQuery ul t) = RunAction (va_action m)" by simp
    with h show False by simp
  qed
  with m p show ?thesis by blast
qed

theorem contained_transcript_runs_command_witness:
  "find (\<lambda>cmd. includes_str (units (command cmd)) (units ''start'')) va_voiceCommands
     = Some \<lparr>command = ''start assessment'', va_action = Navigate ''/assessment'',
              va_description = ''Begin a new heart health assessment''\<rparr>
   \<and> va_processVoiceCommand no_tables (units ''start'')
       = [RunAction (Navigate ''/assessment''),
          AddToConversation SAi (units ''Executing: Begin a new heart health assessment''),
          VaSpeak (units ''Executing: Begin a new heart health assessment'')]"
proof -
  have h: "find (\<lambda>cmd. includes_str (units (command cmd)) (units ''start'')) va_voiceCommands
     = Some \<lparr>command = ''start assessment'', va_action = Navigate ''/assessment'',
              va_description = ''Begin a new heart health assessment''\<rparr>"
    by code_simp
  from contained_transcript_runs_command [OF h, of no_tables] h show ?thesis
    by simp
qed

end
